theory Spec2Isabelle
  imports Main
begin

section \<open>Python values and exceptions\<close>

text \<open>
  The two scheduler filters of \<^verbatim>\<open>cinder/scheduler/filters\<close> are dynamically typed
  Python 2.  The values that flow through them (request metadata, the result of
  \<^verbatim>\<open>ast.literal_eval\<close>, decoded JSON bodies) are modelled by one datatype.  A \<open>PDict\<close>
  is an association list that is read with \<open>map_of\<close>: the first binding of a key is the
  binding of the dictionary.
\<close>

datatype pyval =
    PNone
  | PBool bool
  | PInt int
  | PStr string
  | PList "pyval list"
  | PTuple "pyval list"
  | PDict "(pyval \<times> pyval) list"

text \<open>Every \<^verbatim>\<open>raise\<close> that can leave a modelled function is a value of this type.\<close>

datatype pyerr =
    KeyError
  | TypeError
  | AttributeError
  | ValueError
  | NoSuchOptError
  | HTTPException

subsection \<open>Strings\<close>

text \<open>\<^verbatim>\<open>str.lower()\<close> on a byte string: the ASCII capitals are mapped, all else is kept.\<close>

definition lower_char :: "char \<Rightarrow> char" where
  "lower_char c =
     (let n = (of_char c :: nat) in if 65 \<le> n \<and> n \<le> 90 then char_of (n + 32) else c)"

definition lower :: "string \<Rightarrow> string" where
  "lower s = map lower_char s"

text \<open>\<^verbatim>\<open>s.split(sep)\<close> for a one-character separator; the result is never empty.\<close>

fun split_char :: "char \<Rightarrow> string \<Rightarrow> string list" where
  "split_char sep [] = [ [] ]"
| "split_char sep (c # cs) =
     (if c = sep then [] # split_char sep cs
      else (case split_char sep cs of [] \<Rightarrow> [ [c] ] | w # ws \<Rightarrow> (c # w) # ws))"

text \<open>\<^verbatim>\<open>s.startswith(p)\<close> is \<open>startswith p s\<close>.\<close>

fun startswith :: "string \<Rightarrow> string \<Rightarrow> bool" where
  "startswith [] s = True"
| "startswith (p # ps) [] = False"
| "startswith (p # ps) (c # cs) = (p = c \<and> startswith ps cs)"

text \<open>\<^verbatim>\<open>v in s\<close> for two strings is the substring test; \<open>str_contains s v\<close>.\<close>

fun str_contains :: "string \<Rightarrow> string \<Rightarrow> bool" where
  "str_contains [] v = (v = [])"
| "str_contains (c # cs) v = (startswith v (c # cs) \<or> str_contains cs v)"

subsection \<open>Dictionaries\<close>

text \<open>\<^verbatim>\<open>d[k] = v\<close> on an association list: an existing key keeps its place.\<close>

fun dict_set :: "'k \<Rightarrow> 'v \<Rightarrow> ('k \<times> 'v) list \<Rightarrow> ('k \<times> 'v) list" where
  "dict_set k v [] = [(k, v)]"
| "dict_set k v (kv # kvs) =
     (if fst kv = k then (k, v) # kvs else kv # dict_set k v kvs)"

text \<open>\<^verbatim>\<open>k in d\<close>.\<close>

definition dict_has :: "('k \<times> 'v) list \<Rightarrow> 'k \<Rightarrow> bool" where
  "dict_has d k = (map_of d k \<noteq> None)"

text \<open>Truth value of a Python object, as \<^verbatim>\<open>if x:\<close> tests it.\<close>

fun truthy :: "pyval \<Rightarrow> bool" where
  "truthy PNone = False"
| "truthy (PBool b) = b"
| "truthy (PInt n) = (n \<noteq> 0)"
| "truthy (PStr s) = (s \<noteq> [])"
| "truthy (PList xs) = (xs \<noteq> [])"
| "truthy (PTuple xs) = (xs \<noteq> [])"
| "truthy (PDict kvs) = (kvs \<noteq> [])"

text \<open>
  \<^verbatim>\<open>v in c\<close> where \<open>v\<close> is a string: membership in a list, a tuple or the keys of a
  dictionary, the substring test in a string, and \<^verbatim>\<open>TypeError\<close> (argument is not
  iterable) for \<^verbatim>\<open>None\<close>, booleans and numbers.
\<close>

fun contains_str :: "pyval \<Rightarrow> string \<Rightarrow> pyerr + bool" where
  "contains_str (PList xs) v = Inr (PStr v \<in> set xs)"
| "contains_str (PTuple xs) v = Inr (PStr v \<in> set xs)"
| "contains_str (PDict kvs) v = Inr (PStr v \<in> set (map fst kvs))"
| "contains_str (PStr s) v = Inr (str_contains s v)"
| "contains_str PNone v = Inl TypeError"
| "contains_str (PBool b) v = Inl TypeError"
| "contains_str (PInt n) v = Inl TypeError"

section \<open>asset\_tag\_filter.py: the tag evaluator\<close>

text \<open>
  The libraries the filter calls are parameters of the model: \<open>ast_literal_eval\<close> is
  \<^verbatim>\<open>ast.literal_eval\<close> (\<open>None\<close> when it raises), \<open>json_loads\<close> is \<^verbatim>\<open>json.loads\<close>
  (\<open>None\<close> when it raises) and \<open>saml_attributes\<close> is \<^verbatim>\<open>etree.XML\<close> followed by
  \<^verbatim>\<open>findall\<close> of the SAML attribute path (\<open>None\<close> when either raises).
\<close>

record element =
  attrib_Name :: "string option"
  attribute_value :: "string option option"

record libs =
  ast_literal_eval :: "string \<Rightarrow> pyval option"
  json_loads :: "string \<Rightarrow> pyval option"
  saml_attributes :: "string \<Rightarrow> element list option"

type_synonym host_tags = "(string \<times> string) list"

text \<open>
  The condition of the loop body of \<^verbatim>\<open>verify_asset_tag\<close>:
  \<^verbatim>\<open>tag not in list(host_tags.keys()) or host_tags[tag] not in sel_tags[tag]\<close>.
  The keys of \<open>host_tags\<close> are strings, so a selection key that is not a string is never
  among them.
\<close>

definition tag_mismatch :: "host_tags \<Rightarrow> (pyval \<times> pyval) list \<Rightarrow> pyval \<Rightarrow> pyerr + bool" where
  "tag_mismatch host_tags sel_tags tag =
     (case tag of
        PStr k \<Rightarrow>
          (case map_of host_tags k of
             None \<Rightarrow> Inr True
           | Some v \<Rightarrow>
               (case map_of sel_tags tag of
                  None \<Rightarrow> Inl KeyError
                | Some c \<Rightarrow>
                    (case contains_str c v of Inl e \<Rightarrow> Inl e | Inr b \<Rightarrow> Inr (\<not> b))))
      | _ \<Rightarrow> Inr True)"

text \<open>The \<^verbatim>\<open>for tag in list(sel_tags.keys())\<close> loop; it has no \<^verbatim>\<open>break\<close>.\<close>

fun tags_loop :: "host_tags \<Rightarrow> (pyval \<times> pyval) list \<Rightarrow> pyval list \<Rightarrow> bool \<Rightarrow> pyerr + bool" where
  "tags_loop host_tags sel_tags [] iteration_status = Inr iteration_status"
| "tags_loop host_tags sel_tags (tag # tags) iteration_status =
     (case tag_mismatch host_tags sel_tags tag of
        Inl e \<Rightarrow> Inl e
      | Inr b \<Rightarrow> tags_loop host_tags sel_tags tags (if b then False else iteration_status))"

text \<open>
  \<^verbatim>\<open>verify_asset_tag\<close>.  The bare \<^verbatim>\<open>except:\<close> turns every exception into \<open>False\<close>:
  \<^verbatim>\<open>.lower()\<close> on a value that is not a string, a failing \<^verbatim>\<open>literal_eval\<close>,
  \<^verbatim>\<open>.keys()\<close> on a value that is not a dictionary, and an exception of the loop.
\<close>

definition verify_asset_tag :: "libs \<Rightarrow> host_tags \<Rightarrow> pyval \<Rightarrow> bool" where
  "verify_asset_tag L host_tags tag_selections =
     (case tag_selections of
        PStr s \<Rightarrow>
          (case ast_literal_eval L (lower s) of
             None \<Rightarrow> False
           | Some (PDict sel_tags) \<Rightarrow>
               (case tags_loop host_tags sel_tags (map fst sel_tags) True of
                  Inl e \<Rightarrow> False
                | Inr iteration_status \<Rightarrow> iteration_status)
           | Some _ \<Rightarrow> False)
      | _ \<Rightarrow> False)"

text \<open>
  What the specification calls the accepted-value set of a key: the elements of the list or
  tuple the selection gives for it.  (\<^verbatim>\<open>ast.literal_eval\<close> of Python 2 has no set
  literals.)
\<close>

fun accepted_values :: "pyval \<Rightarrow> pyval list option" where
  "accepted_values (PList xs) = Some xs"
| "accepted_values (PTuple xs) = Some xs"
| "accepted_values c = None"

definition well_formed_selection :: "(pyval \<times> pyval) list \<Rightarrow> bool" where
  "well_formed_selection sel_tags =
     list_all (\<lambda>kc. accepted_values (snd kc) \<noteq> None) sel_tags"

text \<open>
  The contract of the tag evaluator in the words of the specification: for every key of
  the selection, the key exists in the host's tags and the host's value for it is a member
  of the accepted-value set of that key.
\<close>

definition spec_tag_satisfied :: "host_tags \<Rightarrow> (pyval \<times> pyval) list \<Rightarrow> pyval \<Rightarrow> bool" where
  "spec_tag_satisfied host_tags selection tag =
     (case tag of
        PStr k \<Rightarrow>
          (case map_of host_tags k of
             None \<Rightarrow> False
           | Some v \<Rightarrow>
               (case map_of selection tag of
                  None \<Rightarrow> False
                | Some c \<Rightarrow>
                    (case accepted_values c of None \<Rightarrow> False | Some xs \<Rightarrow> PStr v \<in> set xs)))
      | _ \<Rightarrow> False)"

definition spec_matches :: "host_tags \<Rightarrow> (pyval \<times> pyval) list \<Rightarrow> bool" where
  "spec_matches host_tags selection =
     list_all (spec_tag_satisfied host_tags selection) (map fst selection)"

text \<open>
  Values that \<^verbatim>\<open>in\<close> cannot search: on them \<open>contains_str\<close> raises.
\<close>

fun iterable :: "pyval \<Rightarrow> bool" where
  "iterable PNone = False"
| "iterable (PBool b) = False"
| "iterable (PInt n) = False"
| "iterable v = True"

text \<open>
  "Can be parsed into a valid selection mapping", in the words of the specification:
  \<^verbatim>\<open>literal_eval\<close> reads the lower-cased string as a dictionary, and every value of the
  dictionary is a collection of accepted values.
\<close>

definition spec_valid_selection :: "libs \<Rightarrow> string \<Rightarrow> bool" where
  "spec_valid_selection L s =
     (case ast_literal_eval L (lower s) of
        None \<Rightarrow> False
      | Some (PDict sel_tags) \<Rightarrow> well_formed_selection sel_tags
      | Some _ \<Rightarrow> False)"

text \<open>
  The part of the invalid selection strings on which the evaluator cannot but fail:
  \<^verbatim>\<open>literal_eval\<close> rejects the lower-cased text, or the literal is not a dictionary, or
  the dictionary gives some key a value that \<^verbatim>\<open>in\<close> cannot search.  The other invalid
  selections, dictionaries with a string or a dictionary as a value, are not in it.
\<close>

definition unusable_selection :: "libs \<Rightarrow> string \<Rightarrow> bool" where
  "unusable_selection L s =
     (case ast_literal_eval L (lower s) of
        None \<Rightarrow> True
      | Some (PDict sel_tags) \<Rightarrow>
          list_ex (\<lambda>tag. case map_of sel_tags tag of
                            None \<Rightarrow> False
                          | Some c \<Rightarrow> \<not> iterable c)
                  (map fst sel_tags)
      | Some _ \<Rightarrow> True)"

section \<open>asset\_tag\_filter.py: attestation query and SAML report\<close>

text \<open>
  The options of the \<^verbatim>\<open>[trusted_computing]\<close> group that the filters read.
  \<^verbatim>\<open>attestation_auth_blob\<close> is registered without a default, so it may be \<open>None\<close>.
  \<^verbatim>\<open>default_trust_level\<close> is read by \<^verbatim>\<open>TrustedFilter\<close> but is not among the options
  that \<^verbatim>\<open>scheduler_config.py\<close> registers; \<open>None\<close> stands for the unregistered option,
  whose read raises \<^verbatim>\<open>NoSuchOptError\<close>.
\<close>

record conf =
  attestation_api_url :: string
  attestation_auth_blob :: "string option"
  attestation_auth_timeout :: int
  create_blank_on_trusted :: bool
  default_asset_tags :: string
  default_trust_level :: "string option"

text \<open>The defaults that \<^verbatim>\<open>scheduler_config.py\<close> registers.\<close>

definition registered_defaults :: conf where
  "registered_defaults =
     \<lparr>attestation_api_url = ''/OpenAttestationWebServices/V1.0'',
      attestation_auth_blob = None,
      attestation_auth_timeout = 60,
      create_blank_on_trusted = True,
      default_asset_tags = ''None'',
      default_trust_level = None\<rparr>"

text \<open>
  What one HTTPS exchange of \<^verbatim>\<open>HTTPSClientAuthConnection\<close> can do: answer with a
  status and a body, fail with \<^verbatim>\<open>socket.error\<close> or \<^verbatim>\<open>IOError\<close>, or fail with an
  exception that is neither (\<^verbatim>\<open>httplib.HTTPException\<close>).
\<close>

datatype https_outcome = HttpsResponse nat string | SocketError | HttpsFault

text \<open>The first component of the pairs that \<^verbatim>\<open>_do_request\<close> returns.\<close>

datatype status = StatusCode nat | IOErrorClass

definition success_code :: "nat \<Rightarrow> bool" where
  "success_code code = (code = 200 \<or> code = 201 \<or> code = 202 \<or> code = 204)"

definition saml_do_request :: "https_outcome \<Rightarrow> pyerr + (status \<times> string option)" where
  "saml_do_request outcome =
     (case outcome of
        HttpsResponse status_code data \<Rightarrow>
          (if success_code status_code then Inr (StatusCode 200, Some data)
           else Inr (StatusCode status_code, None))
      | SocketError \<Rightarrow> Inr (IOErrorClass, None)
      | HttpsFault \<Rightarrow> Inl HTTPException)"

text \<open>
  \<^verbatim>\<open>_request\<close>: \<^verbatim>\<open>base64.encodestring(self.auth_blob)\<close> is evaluated before the test
  of \<^verbatim>\<open>self.auth_blob\<close> and outside every \<^verbatim>\<open>try\<close>; on \<open>None\<close> it raises
  \<^verbatim>\<open>TypeError\<close>.
\<close>

definition saml_request ::
  "conf \<Rightarrow> (string \<Rightarrow> https_outcome) \<Rightarrow> string \<Rightarrow> pyerr + (status \<times> string option)" where
  "saml_request C net action_url =
     (case attestation_auth_blob C of
        None \<Rightarrow> Inl TypeError
      | Some blob \<Rightarrow>
          (case saml_do_request (net action_url) of
             Inl e \<Rightarrow> Inl e
           | Inr (status, data) \<Rightarrow>
               (if status \<noteq> StatusCode 200 then Inr (status, None) else Inr (status, data))))"

definition saml_do_attestation ::
  "conf \<Rightarrow> (string \<Rightarrow> https_outcome) \<Rightarrow> string \<Rightarrow> pyerr + string option" where
  "saml_do_attestation C net hostname =
     (case saml_request C net (attestation_api_url C @ ''?nameEqualTo='' @ hostname) of
        Inl e \<Rightarrow> Inl e
      | Inr (status, data) \<Rightarrow> Inr data)"

text \<open>
  The loop of \<^verbatim>\<open>verify_and_parse_saml\<close> over the attribute elements.  \<open>trust\<close> and
  \<open>asset_tag\<close> are updated in place, and the \<^verbatim>\<open>except:\<close> around the loop returns them
  as they are when an exception stops it: a missing \<^verbatim>\<open>Name\<close>, a missing value
  element, \<^verbatim>\<open>.lower()\<close> of a missing text, or a tag name without \<^verbatim>\<open>[\<close>.
\<close>

fun scan_attributes :: "element list \<Rightarrow> bool \<Rightarrow> host_tags \<Rightarrow> bool \<times> host_tags" where
  "scan_attributes [] trust asset_tag = (trust, asset_tag)"
| "scan_attributes (el # els) trust asset_tag =
     (case attrib_Name el of
        None \<Rightarrow> (trust, asset_tag)
      | Some name \<Rightarrow>
          (if lower name = ''trusted'' then
             (case attribute_value el of
                None \<Rightarrow> (trust, asset_tag)
              | Some text \<Rightarrow>
                  scan_attributes els (if text = Some ''true'' then True else trust) asset_tag)
           else if startswith ''tag'' (lower name) then
             (case attribute_value el of
                None \<Rightarrow> (trust, asset_tag)
              | Some None \<Rightarrow> (trust, asset_tag)
              | Some (Some text) \<Rightarrow>
                  (case split_char CHR ''['' (lower name) of
                     w0 # w1 # ws \<Rightarrow>
                       (case split_char CHR '']'' w1 of
                          [] \<Rightarrow> (trust, asset_tag)
                        | key # rest \<Rightarrow>
                            scan_attributes els trust
                              (dict_set (lower key) (lower text) asset_tag))
                   | _ \<Rightarrow> (trust, asset_tag)))
           else scan_attributes els trust asset_tag))"

text \<open>
  \<^verbatim>\<open>verify_and_parse_saml\<close>.  A body that decodes as JSON to a true value is the
  authority's "host not found" answer.  Both \<^verbatim>\<open>try\<close> blocks catch everything, so a
  missing body (\<open>None\<close>) ends in the second \<^verbatim>\<open>except\<close>.
\<close>

definition verify_and_parse_saml :: "libs \<Rightarrow> string option \<Rightarrow> bool \<times> host_tags" where
  "verify_and_parse_saml L saml_data =
     (case saml_data of
        None \<Rightarrow> (False, [])
      | Some s \<Rightarrow>
          (if (case json_loads L s of None \<Rightarrow> False | Some v \<Rightarrow> truthy v) then (False, [])
           else (case saml_attributes L s of
                   None \<Rightarrow> (False, [])
                 | Some elements \<Rightarrow> scan_attributes elements False [])))"

section \<open>asset\_tag\_filter.py: TrustAssertionFilter\<close>

record request_spec =
  image_id :: "string option"
  snapshot_id :: "string option"

type_synonym metadata = "(string \<times> pyval) list"

record filter_properties =
  request_spec :: request_spec
  metadata :: metadata

text \<open>\<^verbatim>\<open>host.split("@")[0]\<close>.\<close>

definition hostname_of :: "string \<Rightarrow> string" where
  "hostname_of host = (case split_char CHR ''@'' host of [] \<Rightarrow> [] | w # ws \<Rightarrow> w)"

text \<open>
  \<^verbatim>\<open>TrustAssertionFilter.backend_passes\<close>.  The metadata dictionary belongs to the
  caller and is changed in place, so the model returns it next to the decision.
\<close>

definition TrustAssertionFilter_backend_passes ::
  "libs \<Rightarrow> conf \<Rightarrow> (string \<Rightarrow> https_outcome) \<Rightarrow> string \<Rightarrow> filter_properties
     \<Rightarrow> metadata \<times> (pyerr + bool)" where
  "TrustAssertionFilter_backend_passes L C net host fp =
     (let rs = request_spec fp;
          is_blank_volume = (image_id rs = None \<and> snapshot_id rs = None);
          md = (if metadata fp = [] \<and> is_blank_volume \<and> create_blank_on_trusted C
                then dict_set ''asset_tags'' (PStr (default_asset_tags C))
                       (dict_set ''trust'' (PStr ''trusted'') (metadata fp))
                else metadata fp);
          verify_trust_status = dict_has md ''trust'';
          tag_selections =
            (case map_of md ''asset_tags'' of Some ts \<Rightarrow> ts | None \<Rightarrow> PStr ''None'');
          verify_tags =
            (verify_trust_status \<and> tag_selections \<noteq> PNone \<and> tag_selections \<noteq> PDict []
               \<and> tag_selections \<noteq> PStr ''None'')
      in (md,
          if \<not> verify_trust_status then Inr True
          else (case saml_do_attestation C net (hostname_of host) of
                  Inl e \<Rightarrow> Inl e
                | Inr host_data \<Rightarrow>
                    (case verify_and_parse_saml L host_data of
                       (trust, asset_tag) \<Rightarrow>
                         (if \<not> trust then Inr False
                          else if verify_tags
                          then Inr (verify_asset_tag L asset_tag tag_selections)
                          else Inr True)))))"

text \<open>\<^verbatim>\<open>TrustAssertionFilter.is_trusted\<close>; its \<^verbatim>\<open>except:\<close> covers the whole body.\<close>

definition TrustAssertionFilter_is_trusted ::
  "libs \<Rightarrow> conf \<Rightarrow> (string \<Rightarrow> https_outcome) \<Rightarrow> string \<Rightarrow> pyval \<Rightarrow> bool" where
  "TrustAssertionFilter_is_trusted L C net hostname tags =
     (case saml_do_attestation C net hostname of
        Inl e \<Rightarrow> False
      | Inr host_data \<Rightarrow>
          (case verify_and_parse_saml L host_data of
             (trust, asset_tag) \<Rightarrow>
               (if \<not> trust then False
                else if tags \<noteq> PNone \<and> tags \<noteq> PStr ''None'' \<and> tags \<noteq> PDict []
                then verify_asset_tag L asset_tag tags
                else True)))"

section \<open>trusted\_filter.py: the attestation cache\<close>

text \<open>
  A cache entry.  \<open>vtime\<close> is a naive UTC \<^verbatim>\<open>datetime\<close>, counted in microseconds (the
  resolution of \<^verbatim>\<open>datetime\<close>) since 1970-01-01T00:00:00, the time that
  \<^verbatim>\<open>_init_cache_entry\<close> stores.
\<close>

record entry =
  trust_lvl :: pyval
  vtime :: int

text \<open>
  What the cache reaches outside the repository: the clock (\<open>utcnow k\<close> is the value of
  the \<open>k\<close>-th call of \<^verbatim>\<open>timeutils.utcnow()\<close>), the attestation server (\<open>poll_hosts k hosts\<close>
  is the outcome of the \<open>k\<close>-th \<^verbatim>\<open>POST PollHosts\<close>, sent for \<open>hosts\<close>), and the parsers
  \<^verbatim>\<open>jsonutils.loads\<close>, \<^verbatim>\<open>iso8601.parse_date\<close> and \<^verbatim>\<open>datetime.strptime(_, "%c")\<close>, each
  \<open>None\<close> where it rejects the text, and each followed by \<^verbatim>\<open>normalize_time\<close>.
\<close>

datatype http_outcome = Response nat string | RequestException

record world =
  utcnow :: "nat \<Rightarrow> int"
  poll_hosts :: "nat \<Rightarrow> pyval list \<Rightarrow> http_outcome"
  jsonutils_loads :: "string \<Rightarrow> pyval option"
  parse_iso8601 :: "string \<Rightarrow> int option"
  strptime_c :: "string \<Rightarrow> int option"

text \<open>
  The state of a \<^verbatim>\<open>ComputeAttestationCache\<close>: the dictionary \<open>storage_nodes\<close>, and the
  history of its dealings with the world: how often the clock was read, and the host lists
  of the queries sent so far.  The filter asks for hosts by name, but a key of
  \<open>storage_nodes\<close> can be any value that an answer of the server gives as
  \<^verbatim>\<open>host_name\<close>; keys are compared as values of \<open>pyval\<close> (that Python takes the keys
  \<^verbatim>\<open>True\<close> and \<^verbatim>\<open>1\<close> for one key is not modelled).
\<close>

record cache_state =
  storage_nodes :: "(pyval \<times> entry) list"
  clock_reads :: nat
  requests :: "pyval list list"

subsection \<open>AttestationService\<close>

text \<open>
  \<^verbatim>\<open>_do_request\<close> and \<^verbatim>\<open>_request\<close>: a body that is not JSON is returned as the text
  itself.
\<close>

definition oat_do_request :: "world \<Rightarrow> nat \<Rightarrow> pyval list \<Rightarrow> status \<times> pyval" where
  "oat_do_request W k hosts =
     (case poll_hosts W k hosts of
        Response status_code text \<Rightarrow>
          (if success_code status_code
           then (StatusCode 200,
                 (case jsonutils_loads W text of Some v \<Rightarrow> v | None \<Rightarrow> PStr text))
           else (StatusCode status_code, PNone))
      | RequestException \<Rightarrow> (IOErrorClass, PNone))"

text \<open>\<^verbatim>\<open>data.get('hosts')\<close>: only a dictionary has \<^verbatim>\<open>get\<close>.\<close>

definition py_get :: "pyval \<Rightarrow> string \<Rightarrow> pyerr + pyval" where
  "py_get data k =
     (case data of
        PDict kvs \<Rightarrow> Inr (case map_of kvs (PStr k) of Some v \<Rightarrow> v | None \<Rightarrow> PNone)
      | _ \<Rightarrow> Inl AttributeError)"

text \<open>What the \<open>k\<close>-th query, sent for \<open>hosts\<close>, makes \<^verbatim>\<open>do_attestation\<close> return or raise.\<close>

definition attestation_result :: "world \<Rightarrow> nat \<Rightarrow> pyval list \<Rightarrow> pyerr + pyval" where
  "attestation_result W k hosts =
     (case oat_do_request W k hosts of
        (status, data) \<Rightarrow> (if data \<noteq> PNone then py_get data ''hosts'' else Inr PNone))"

definition do_attestation ::
  "world \<Rightarrow> pyval list \<Rightarrow> cache_state \<Rightarrow> (pyerr + pyval) \<times> cache_state" where
  "do_attestation W hosts st =
     (attestation_result W (length (requests st)) hosts,
      st\<lparr>requests := requests st @ [hosts]\<rparr>)"

subsection \<open>ComputeAttestationCache\<close>

text \<open>
  \<^verbatim>\<open>timeutils.is_older_than(before, seconds)\<close> of oslo.utils ("Return True if before is
  older than seconds"): \<^verbatim>\<open>utcnow() - before > timedelta(seconds=seconds)\<close>.  It reads
  the clock once.  The bounds of \<^verbatim>\<open>timedelta\<close> (about 2.7 million years) are not
  modelled.
\<close>

definition is_older_than :: "world \<Rightarrow> int \<Rightarrow> int \<Rightarrow> cache_state \<Rightarrow> bool \<times> cache_state" where
  "is_older_than W before seconds st =
     (utcnow W (clock_reads st) - before > seconds * 1000000,
      st\<lparr>clock_reads := Suc (clock_reads st)\<rparr>)"

definition cache_valid :: "world \<Rightarrow> conf \<Rightarrow> pyval \<Rightarrow> cache_state \<Rightarrow> bool \<times> cache_state" where
  "cache_valid W C host st =
     (case map_of (storage_nodes st) host of
        None \<Rightarrow> (False, st)
      | Some node_stats \<Rightarrow>
          (case is_older_than W (vtime node_stats) (attestation_auth_timeout C) st of
             (older, st') \<Rightarrow> (\<not> older, st')))"

definition init_entry :: entry where
  "init_entry = \<lparr>trust_lvl = PStr ''unknown'', vtime = 0\<rparr>"

definition init_cache_entry :: "pyval \<Rightarrow> cache_state \<Rightarrow> cache_state" where
  "init_cache_entry host st =
     st\<lparr>storage_nodes := dict_set host init_entry (storage_nodes st)\<rparr>"

definition invalidate_caches :: "cache_state \<Rightarrow> cache_state" where
  "invalidate_caches st =
     st\<lparr>storage_nodes := map (\<lambda>kv. (fst kv, init_entry)) (storage_nodes st)\<rparr>"

text \<open>\<^verbatim>\<open>state['host_name']\<close>: \<^verbatim>\<open>KeyError\<close> on a dictionary without the key,
  \<^verbatim>\<open>TypeError\<close> on every other value.\<close>

definition subscript :: "pyval \<Rightarrow> string \<Rightarrow> pyerr + pyval" where
  "subscript state k =
     (case state of
        PDict kvs \<Rightarrow> (case map_of kvs (PStr k) of Some v \<Rightarrow> Inr v | None \<Rightarrow> Inl KeyError)
      | _ \<Rightarrow> Inl TypeError)"

text \<open>
  \<^verbatim>\<open>timeutils.parse_isotime\<close> re-raises the parser's \<^verbatim>\<open>ParseError\<close> and
  \<^verbatim>\<open>TypeError\<close> as \<^verbatim>\<open>ValueError\<close>; \<^verbatim>\<open>timeutils.parse_strtime\<close> is
  \<^verbatim>\<open>datetime.strptime\<close>, which raises \<^verbatim>\<open>TypeError\<close> on a value that is not a string.
\<close>

definition parse_isotime :: "world \<Rightarrow> pyval \<Rightarrow> pyerr + int" where
  "parse_isotime W v =
     (case v of
        PStr s \<Rightarrow> (case parse_iso8601 W s of Some t \<Rightarrow> Inr t | None \<Rightarrow> Inl ValueError)
      | _ \<Rightarrow> Inl ValueError)"

definition parse_strtime :: "world \<Rightarrow> pyval \<Rightarrow> pyerr + int" where
  "parse_strtime W v =
     (case v of
        PStr s \<Rightarrow> (case strptime_c W s of Some t \<Rightarrow> Inr t | None \<Rightarrow> Inl ValueError)
      | _ \<Rightarrow> Inl TypeError)"

text \<open>Lists and dictionaries cannot be dictionary keys.\<close>

fun hashable :: "pyval \<Rightarrow> bool" where
  "hashable (PList xs) = False"
| "hashable (PDict kvs) = False"
| "hashable (PTuple xs) = list_all hashable xs"
| "hashable v = True"

text \<open>\<^verbatim>\<open>self.storage_nodes[host] = entry\<close>.\<close>

definition store_entry ::
  "pyval \<Rightarrow> entry \<Rightarrow> cache_state \<Rightarrow> (pyerr + unit) \<times> cache_state" where
  "store_entry host e st =
     (if hashable host then (Inr (), st\<lparr>storage_nodes := dict_set host e (storage_nodes st)\<rparr>)
      else (Inl TypeError, st))"

text \<open>
  \<^verbatim>\<open>_update_cache_entry\<close>.  Only \<^verbatim>\<open>ValueError\<close> is caught; the clock is read only when
  both parsers raise it.
\<close>

definition update_cache_entry ::
  "world \<Rightarrow> pyval \<Rightarrow> cache_state \<Rightarrow> (pyerr + unit) \<times> cache_state" where
  "update_cache_entry W state st =
     (case subscript state ''host_name'' of
        Inl e \<Rightarrow> (Inl e, st)
      | Inr host \<Rightarrow>
     (case subscript state ''trust_lvl'' of
        Inl e \<Rightarrow> (Inl e, st)
      | Inr lvl \<Rightarrow>
     (case subscript state ''vtime'' of
        Inl e \<Rightarrow> (Inl e, st)
      | Inr v \<Rightarrow>
     (case parse_isotime W v of
        Inr t \<Rightarrow> store_entry host \<lparr>trust_lvl = lvl, vtime = t\<rparr> st
      | Inl e \<Rightarrow>
          (if e \<noteq> ValueError then (Inl e, st)
           else (case parse_strtime W v of
                   Inr t \<Rightarrow> store_entry host \<lparr>trust_lvl = lvl, vtime = t\<rparr> st
                 | Inl e' \<Rightarrow>
                     (if e' \<noteq> ValueError then (Inl e', st)
                      else store_entry host
                             \<lparr>trust_lvl = PStr ''unknown'', vtime = utcnow W (clock_reads st)\<rparr>
                             (st\<lparr>clock_reads := Suc (clock_reads st)\<rparr>))))))))"

text \<open>\<^verbatim>\<open>for state in states\<close>: what iterating a value yields.\<close>

definition py_iter :: "pyval \<Rightarrow> pyerr + pyval list" where
  "py_iter states =
     (case states of
        PList xs \<Rightarrow> Inr xs
      | PTuple xs \<Rightarrow> Inr xs
      | PDict kvs \<Rightarrow> Inr (map fst kvs)
      | PStr s \<Rightarrow> Inr (map (\<lambda>c. PStr [c]) s)
      | _ \<Rightarrow> Inl TypeError)"

fun update_entries :: "world \<Rightarrow> pyval list \<Rightarrow> cache_state \<Rightarrow> (pyerr + unit) \<times> cache_state" where
  "update_entries W [] st = (Inr (), st)"
| "update_entries W (state # states) st =
     (case update_cache_entry W state st of
        (Inl e, st') \<Rightarrow> (Inl e, st')
      | (Inr u, st') \<Rightarrow> update_entries W states st')"

definition update_cache :: "world \<Rightarrow> cache_state \<Rightarrow> (pyerr + unit) \<times> cache_state" where
  "update_cache W st =
     (let st1 = invalidate_caches st
      in (case do_attestation W (map fst (storage_nodes st1)) st1 of
            (Inl e, st2) \<Rightarrow> (Inl e, st2)
          | (Inr states, st2) \<Rightarrow>
              (if states = PNone then (Inr (), st2)
               else (case py_iter states of
                       Inl e \<Rightarrow> (Inl e, st2)
                     | Inr xs \<Rightarrow> update_entries W xs st2))))"

definition get_host_attestation ::
  "world \<Rightarrow> conf \<Rightarrow> pyval \<Rightarrow> cache_state \<Rightarrow> (pyerr + pyval) \<times> cache_state" where
  "get_host_attestation W C host st =
     (let st1 = (if \<not> dict_has (storage_nodes st) host then init_cache_entry host st else st)
      in (case cache_valid W C host st1 of
            (valid, st2) \<Rightarrow>
              (case (if \<not> valid then update_cache W st2 else (Inr (), st2)) of
                 (Inl e, st3) \<Rightarrow> (Inl e, st3)
               | (Inr u, st3) \<Rightarrow>
                   (case map_of (storage_nodes st3) host of
                      None \<Rightarrow> (Inl AttributeError, st3)
                    | Some node \<Rightarrow> (Inr (trust_lvl node), st3)))))"

subsection \<open>ComputeAttestation and TrustedFilter\<close>

text \<open>
  \<^verbatim>\<open>is_trusted\<close> returns \<^verbatim>\<open>trust == level\<close>.  The required level is a string (a value
  of the volume metadata, or a string option of the configuration), so the comparison
  holds exactly when the cached level is that string.
\<close>

definition is_trusted ::
  "world \<Rightarrow> conf \<Rightarrow> string \<Rightarrow> string \<Rightarrow> cache_state \<Rightarrow> (pyerr + bool) \<times> cache_state" where
  "is_trusted W C host trust st =
     (case get_host_attestation W C (PStr host) st of
        (Inl e, st') \<Rightarrow> (Inl e, st')
      | (Inr level, st') \<Rightarrow> (Inr (level = PStr trust), st'))"

definition TrustedFilter_backend_passes ::
  "world \<Rightarrow> conf \<Rightarrow> string \<Rightarrow> (string \<times> string) list \<Rightarrow> cache_state
     \<Rightarrow> (pyerr + bool) \<times> cache_state" where
  "TrustedFilter_backend_passes W C host md st =
     (let hostname = hostname_of host
      in (case map_of md ''trust:trusted_host'' of
            Some trust \<Rightarrow> is_trusted W C hostname trust st
          | None \<Rightarrow>
              (case default_trust_level C of
                 None \<Rightarrow> (Inl NoSuchOptError, st)
               | Some trust \<Rightarrow> is_trusted W C hostname trust st)))"

text \<open>The hosts that an answer of the attestation server names, in the order of the answer.\<close>

definition response_host_names :: "pyerr + pyval \<Rightarrow> pyval list" where
  "response_host_names res =
     (case res of
        Inl e \<Rightarrow> []
      | Inr states \<Rightarrow>
          (case py_iter states of
             Inl e \<Rightarrow> []
           | Inr xs \<Rightarrow>
               concat (map (\<lambda>x. case subscript x ''host_name'' of Inl e \<Rightarrow> [] | Inr h \<Rightarrow> [h]) xs)))"

section \<open>Concrete scenarios\<close>

text \<open>
  Small worlds on which the filters are run: libraries that know three tag selections and
  one SAML report, a configuration with an authentication blob, an attestation server that is
  reachable or not, and a few cache states.  Times are microseconds since the epoch.
\<close>

definition example_libs :: libs where
  "example_libs =
     \<lparr>ast_literal_eval =
        (\<lambda>s. if s = ''{'env': ['prod']}''
             then Some (PDict [(PStr ''env'', PList [PStr ''prod''])])
             else if s = ''{'env': 'production'}''
             then Some (PDict [(PStr ''env'', PStr ''production'')])
             else if s = ''{'env': {'prod': 1}}''
             then Some (PDict [(PStr ''env'', PDict [(PStr ''prod'', PInt 1)])])
             else None),
      json_loads = (\<lambda>s. None),
      saml_attributes =
        (\<lambda>s. if s = ''<saml>''
             then Some [\<lparr>attrib_Name = Some ''trusted'', attribute_value = Some (Some ''true'')\<rparr>,
                        \<lparr>attrib_Name = Some ''tag[env]'', attribute_value = Some (Some ''prod'')\<rparr>]
             else None)\<rparr>"

definition example_conf :: conf where
  "example_conf = registered_defaults\<lparr>attestation_auth_blob := Some ''secret''\<rparr>"

definition authority_up :: "string \<Rightarrow> https_outcome" where
  "authority_up url = HttpsResponse 200 ''<saml>''"

definition authority_down :: "string \<Rightarrow> https_outcome" where
  "authority_down url = SocketError"

definition blank_request :: "metadata \<Rightarrow> filter_properties" where
  "blank_request md = \<lparr>request_spec = \<lparr>image_id = None, snapshot_id = None\<rparr>, metadata = md\<rparr>"

definition unreachable_world :: world where
  "unreachable_world =
     \<lparr>utcnow = (\<lambda>k. 2000000000),
      poll_hosts = (\<lambda>k hosts. RequestException),
      jsonutils_loads = (\<lambda>s. None),
      parse_iso8601 = (\<lambda>s. None),
      strptime_c = (\<lambda>s. None)\<rparr>"

definition text_body_world :: world where
  "text_body_world =
     unreachable_world\<lparr>poll_hosts := (\<lambda>k hosts. Response 200 ''Service busy'')\<rparr>"

definition answering_world :: world where
  "answering_world =
     \<lparr>utcnow = (\<lambda>k. 1496275230000000),
      poll_hosts = (\<lambda>k hosts. Response 200 ''body''),
      jsonutils_loads =
        (\<lambda>s. if s = ''body''
             then Some (PDict [(PStr ''hosts'',
                    PList [PDict [(PStr ''host_name'', PStr ''host1''),
                                  (PStr ''trust_lvl'', PStr ''trusted''),
                                  (PStr ''vtime'', PStr ''2017-06-01T00:00:00Z'')]])])
             else None),
      parse_iso8601 = (\<lambda>s. if s = ''2017-06-01T00:00:00Z'' then Some 1496275200000000 else None),
      strptime_c = (\<lambda>s. None)\<rparr>"

definition null_vtime_world :: world where
  "null_vtime_world =
     answering_world\<lparr>jsonutils_loads :=
        (\<lambda>s. if s = ''body''
             then Some (PDict [(PStr ''hosts'',
                    PList [PDict [(PStr ''host_name'', PStr ''host1''),
                                  (PStr ''trust_lvl'', PStr ''trusted''),
                                  (PStr ''vtime'', PNone)]])])
             else None)\<rparr>"

definition empty_cache :: cache_state where
  "empty_cache = \<lparr>storage_nodes = [], clock_reads = 0, requests = []\<rparr>"

definition cache_verified_at :: "int \<Rightarrow> cache_state" where
  "cache_verified_at t =
     \<lparr>storage_nodes = [(PStr ''host1'', \<lparr>trust_lvl = PStr ''trusted'', vtime = t\<rparr>)],
      clock_reads = 0, requests = []\<rparr>"

definition two_host_cache :: cache_state where
  "two_host_cache =
     \<lparr>storage_nodes = [(PStr ''host1'', \<lparr>trust_lvl = PStr ''untrusted'', vtime = 1000000000\<rparr>),
                       (PStr ''host2'', \<lparr>trust_lvl = PStr ''trusted'', vtime = 1000000000\<rparr>)],
      clock_reads = 0, requests = []\<rparr>"

section \<open>Properties of the tag evaluator\<close>

lemmas scenario_defs =
  example_libs_def example_conf_def authority_up_def authority_down_def blank_request_def
  unreachable_world_def text_body_world_def answering_world_def null_vtime_world_def
  empty_cache_def
  cache_verified_at_def two_host_cache_def registered_defaults_def

lemma map_of_dict_set: "map_of (dict_set k v d) = (map_of d)(k \<mapsto> v)"
  by (induction d) (auto simp: fun_eq_iff)

lemma contains_str_accepted:
  "accepted_values c = Some xs \<Longrightarrow> contains_str c v = Inr (PStr v \<in> set xs)"
  by (cases c) auto

lemma well_formed_lookup:
  "well_formed_selection sel_tags \<Longrightarrow> map_of sel_tags tag = Some c \<Longrightarrow>
   \<exists>xs. accepted_values c = Some xs"
  unfolding well_formed_selection_def
  by (auto simp: list_all_iff dest!: map_of_SomeD)

lemma tag_mismatch_well_formed:
  assumes "well_formed_selection sel_tags" and "tag \<in> fst ` set sel_tags"
  shows "tag_mismatch host_tags sel_tags tag = Inr (\<not> spec_tag_satisfied host_tags sel_tags tag)"
proof -
  from assms(2) obtain c where c: "map_of sel_tags tag = Some c"
    by (metis domD dom_map_of_conv_image_fst)
  with assms(1) obtain xs where xs: "accepted_values c = Some xs"
    using well_formed_lookup by blast
  show ?thesis
    using c xs
    by (auto simp: tag_mismatch_def spec_tag_satisfied_def contains_str_accepted
             split: pyval.splits option.splits)
qed

text \<open>
  On a well-formed selection the loop raises nothing, and its flag ends as the conjunction
  of the per-key checks.
\<close>

lemma tags_loop_well_formed:
  "well_formed_selection sel_tags \<Longrightarrow> set tags \<subseteq> fst ` set sel_tags \<Longrightarrow>
   tags_loop host_tags sel_tags tags st =
     Inr (st \<and> list_all (spec_tag_satisfied host_tags sel_tags) tags)"
  by (induction tags arbitrary: st) (auto simp: tag_mismatch_well_formed)

text \<open>
  C7.  For a selection string that \<^verbatim>\<open>literal_eval\<close> reads as a dictionary whose values
  are lists or tuples, and for every mapping of host tags, \<^verbatim>\<open>verify_asset_tag\<close> returns
  true if and only if every key of the selection is a key of the host's tags and the host's
  value for it is among the values the selection accepts for that key.  The selection is
  the one read from the lower-cased string.  For the empty selection the right-hand side is
  the conjunction over no keys, which is true.
\<close>

theorem verify_asset_tag_matches:
  assumes "ast_literal_eval L (lower s) = Some (PDict sel_tags)"
    and "well_formed_selection sel_tags"
  shows "verify_asset_tag L host_tags (PStr s) = spec_matches host_tags sel_tags"
  using assms tags_loop_well_formed[of sel_tags "map fst sel_tags" host_tags True]
  by (simp add: verify_asset_tag_def spec_matches_def)

theorem verify_asset_tag_matches_witness:
  "ast_literal_eval example_libs (lower ''{'env': ['prod']}'')
      = Some (PDict [(PStr ''env'', PList [PStr ''prod''])])
   \<and> well_formed_selection [(PStr ''env'', PList [PStr ''prod''])]
   \<and> verify_asset_tag example_libs [(''env'', ''prod''), (''tier'', ''gold'')]
        (PStr ''{'env': ['prod']}'')
   \<and> spec_matches [(''env'', ''prod''), (''tier'', ''gold'')] [(PStr ''env'', PList [PStr ''prod''])]
   \<and> \<not> verify_asset_tag example_libs [(''env'', ''dev'')] (PStr ''{'env': ['prod']}'')"
proof -
  have h1: "ast_literal_eval example_libs (lower ''{'env': ['prod']}'')
      = Some (PDict [(PStr ''env'', PList [PStr ''prod''])])"
    by (simp add: example_libs_def lower_def lower_char_def)
  have h2: "well_formed_selection [(PStr ''env'', PList [PStr ''prod''])]"
    by (simp add: well_formed_selection_def)
  have s1: "spec_matches [(''env'', ''prod''), (''tier'', ''gold'')]
              [(PStr ''env'', PList [PStr ''prod''])]"
    by (simp add: spec_matches_def spec_tag_satisfied_def)
  have s2: "\<not> spec_matches [(''env'', ''dev'')] [(PStr ''env'', PList [PStr ''prod''])]"
    by (simp add: spec_matches_def spec_tag_satisfied_def)
  from verify_asset_tag_matches[OF h1 h2] h1 h2 s1 s2 show ?thesis by simp
qed

text \<open>Once the flag is false the loop cannot end with true.\<close>

lemma tags_loop_False: "tags_loop host_tags sel_tags tags False \<noteq> Inr True"
  by (induction tags) (auto split: sum.splits)

lemma tags_loop_bad_tag:
  assumes "tag \<in> set tags" and "tag_mismatch host_tags sel_tags tag \<noteq> Inr False"
  shows "tags_loop host_tags sel_tags tags st \<noteq> Inr True"
  using assms
proof (induction tags arbitrary: st)
  case Nil
  then show ?case by simp
next
  case (Cons t ts)
  show ?case
  proof (cases "t = tag")
    case True
    with Cons.prems(2) show ?thesis
      by (auto split: sum.splits simp: tags_loop_False)
  next
    case False
    with Cons show ?thesis
      by (auto split: sum.splits)
  qed
qed

lemma tag_mismatch_not_iterable:
  assumes "map_of sel_tags tag = Some c" and "\<not> iterable c"
  shows "tag_mismatch host_tags sel_tags tag \<noteq> Inr False"
  using assms by (cases c) (auto simp: tag_mismatch_def split: pyval.splits option.splits)

lemma verify_asset_tag_unusable:
  assumes "unusable_selection L s"
  shows "\<not> verify_asset_tag L host_tags (PStr s)"
proof (cases "ast_literal_eval L (lower s)")
  case None
  then show ?thesis by (simp add: verify_asset_tag_def)
next
  case (Some v)
  show ?thesis
  proof (cases v)
    case (PDict sel_tags)
    with Some assms
    have "\<exists>tag \<in> set (map fst sel_tags). \<exists>c. map_of sel_tags tag = Some c \<and> \<not> iterable c"
      by (fastforce simp: unusable_selection_def list_ex_iff split: option.splits)
    then obtain tag c where t: "tag \<in> set (map fst sel_tags)" "map_of sel_tags tag = Some c"
      "\<not> iterable c"
      by blast
    then have "tags_loop host_tags sel_tags (map fst sel_tags) True \<noteq> Inr True"
      using tags_loop_bad_tag[OF t(1) tag_mismatch_not_iterable[OF t(2) t(3)]] by blast
    with Some PDict show ?thesis
      by (auto simp: verify_asset_tag_def split: sum.splits)
  qed (use Some in \<open>simp_all add: verify_asset_tag_def\<close>)
qed

text \<open>
  What the loop computes on any dictionary: it ends with true exactly when no key raises and
  no key mismatches.
\<close>

lemma tags_loop_True_iff:
  "(tags_loop host_tags sel_tags tags st = Inr True) =
     (st \<and> list_all (\<lambda>tag. tag_mismatch host_tags sel_tags tag = Inr False) tags)"
  by (induction tags arbitrary: st) (auto split: sum.splits)

lemma verify_asset_tag_dict:
  assumes "ast_literal_eval L (lower s) = Some (PDict sel_tags)"
  shows "verify_asset_tag L host_tags (PStr s) =
           list_all (\<lambda>tag. tag_mismatch host_tags sel_tags tag = Inr False) (map fst sel_tags)"
proof -
  have "verify_asset_tag L host_tags (PStr s) =
          (tags_loop host_tags sel_tags (map fst sel_tags) True = Inr True)"
    using assms by (auto simp: verify_asset_tag_def split: sum.splits)
  then show ?thesis by (simp add: tags_loop_True_iff)
qed

section \<open>Properties of TrustAssertionFilter\<close>

lemma example_report:
  "verify_and_parse_saml example_libs (Some ''<saml>'') = (True, [(''env'', ''prod'')])"
  by (simp add: verify_and_parse_saml_def example_libs_def lower_def lower_char_def)

lemma example_hostname: "hostname_of ''host1@lvm'' = ''host1''"
  by (simp add: hostname_of_def)

text \<open>
  C1, as the code has it.  \<^verbatim>\<open>TrustAssertionFilter.backend_passes\<close> accepts every request
  whose metadata has no \<^verbatim>\<open>trust\<close> key, unless the metadata mapping is empty, the request
  is for a blank volume and \<^verbatim>\<open>create_blank_on_trusted\<close> is set; in that case the decision
  is the one for the synthesized metadata: \<^verbatim>\<open>trust\<close> = \<^verbatim>\<open>trusted\<close> and \<^verbatim>\<open>asset_tags\<close> =
  the configured default.  \<^verbatim>\<open>TrustedFilter.backend_passes\<close> has no pass-through: a request
  without \<^verbatim>\<open>trust:trusted_host\<close> is checked against \<^verbatim>\<open>default_trust_level\<close>.
\<close>

theorem no_trust_metadata_decision:
  assumes "\<not> dict_has (metadata fp) ''trust''"
    and "map_of md ''trust:trusted_host'' = None"
  shows "snd (TrustAssertionFilter_backend_passes L C net host fp) =
           (if metadata fp = [] \<and> image_id (request_spec fp) = None
               \<and> snapshot_id (request_spec fp) = None \<and> create_blank_on_trusted C
            then snd (TrustAssertionFilter_backend_passes L C net host
                       (fp\<lparr>metadata := [(''trust'', PStr ''trusted''),
                                        (''asset_tags'', PStr (default_asset_tags C))]\<rparr>))
            else Inr True)
       \<and> TrustedFilter_backend_passes W C host md st =
           (case default_trust_level C of
              None \<Rightarrow> (Inl NoSuchOptError, st)
            | Some trust \<Rightarrow> is_trusted W C (hostname_of host) trust st)"
proof -
  have "snd (TrustAssertionFilter_backend_passes L C net host fp) =
           (if metadata fp = [] \<and> image_id (request_spec fp) = None
               \<and> snapshot_id (request_spec fp) = None \<and> create_blank_on_trusted C
            then snd (TrustAssertionFilter_backend_passes L C net host
                       (fp\<lparr>metadata := [(''trust'', PStr ''trusted''),
                                        (''asset_tags'', PStr (default_asset_tags C))]\<rparr>))
            else Inr True)"
  proof (cases "metadata fp = [] \<and> image_id (request_spec fp) = None
                  \<and> snapshot_id (request_spec fp) = None \<and> create_blank_on_trusted C")
    case True
    then show ?thesis
      by (simp add: TrustAssertionFilter_backend_passes_def Let_def dict_has_def
               split: sum.splits prod.splits)
  next
    case False
    with assms(1) show ?thesis
      by (auto simp: TrustAssertionFilter_backend_passes_def Let_def dict_has_def)
  qed
  moreover have "TrustedFilter_backend_passes W C host md st =
           (case default_trust_level C of
              None \<Rightarrow> (Inl NoSuchOptError, st)
            | Some trust \<Rightarrow> is_trusted W C (hostname_of host) trust st)"
    using assms(2) by (simp add: TrustedFilter_backend_passes_def Let_def)
  ultimately show ?thesis by simp
qed

lemmas lookup_defs =
  get_host_attestation_def Let_def dict_has_def init_cache_entry_def cache_valid_def
  is_older_than_def init_entry_def update_cache_def invalidate_caches_def do_attestation_def
  attestation_result_def oat_do_request_def success_code_def py_get_def py_iter_def
  update_cache_entry_def subscript_def parse_isotime_def parse_strtime_def store_entry_def

lemmas saml_defs =
  TrustAssertionFilter_backend_passes_def Let_def dict_has_def saml_do_attestation_def
  saml_request_def saml_do_request_def success_code_def verify_and_parse_saml_def

theorem no_trust_metadata_decision_witness:
  "\<not> dict_has (metadata (blank_request [])) ''trust''
   \<and> map_of ([] :: (string \<times> string) list) ''trust:trusted_host'' = None
   \<and> snd (TrustAssertionFilter_backend_passes example_libs example_conf authority_down ''host1@lvm''
          (blank_request [])) = Inr False
   \<and> snd (TrustAssertionFilter_backend_passes example_libs example_conf authority_up ''host1@lvm''
          (blank_request [])) = Inr True
   \<and> TrustedFilter_backend_passes unreachable_world example_conf ''host1@lvm'' [] empty_cache
       = (Inl NoSuchOptError, empty_cache)"
proof -
  have h1: "\<not> dict_has (metadata (blank_request [])) ''trust''"
    by (simp add: blank_request_def dict_has_def)
  have h2: "map_of ([] :: (string \<times> string) list) ''trust:trusted_host'' = None"
    by simp
  have a: "snd (TrustAssertionFilter_backend_passes example_libs example_conf authority_down
             ''host1@lvm'' (blank_request [])) = Inr False"
    by (simp add: saml_defs scenario_defs)
  have b: "snd (TrustAssertionFilter_backend_passes example_libs example_conf authority_up
             ''host1@lvm'' (blank_request [])) = Inr True"
    by (simp add: saml_defs scenario_defs lower_def lower_char_def)
  from no_trust_metadata_decision[OF h1 h2, of example_libs example_conf authority_down
         "''host1@lvm''" unreachable_world empty_cache] h1 a b
  show ?thesis by (simp add: scenario_defs)
qed

text \<open>
  C1 as the specification states it fails.  A blank request whose metadata is not empty
  but has no \<^verbatim>\<open>trust\<close> key is accepted with \<^verbatim>\<open>create_blank_on_trusted\<close> set, although the
  synthesized requirement is rejected on the same host; and \<^verbatim>\<open>TrustedFilter\<close>, with a
  default trust level configured, rejects a request that has no trust metadata at all.
\<close>

theorem no_trust_metadata_counterexample:
  "create_blank_on_trusted example_conf
   \<and> snd (TrustAssertionFilter_backend_passes example_libs example_conf authority_down ''host1@lvm''
          (blank_request [(''foo'', PStr ''bar'')])) = Inr True
   \<and> snd (TrustAssertionFilter_backend_passes example_libs example_conf authority_down ''host1@lvm''
          (blank_request [(''trust'', PStr ''trusted''), (''asset_tags'', PStr ''None'')]))
       = Inr False
   \<and> fst (TrustedFilter_backend_passes unreachable_world
            (example_conf\<lparr>default_trust_level := Some ''trusted''\<rparr>) ''host1@lvm'' [] empty_cache)
       = Inr False"
proof -
  have a: "snd (TrustAssertionFilter_backend_passes example_libs example_conf authority_down
             ''host1@lvm'' (blank_request [(''foo'', PStr ''bar'')])) = Inr True"
    by (simp add: saml_defs scenario_defs)
  have b: "snd (TrustAssertionFilter_backend_passes example_libs example_conf authority_down
             ''host1@lvm'' (blank_request [(''trust'', PStr ''trusted''),
                                           (''asset_tags'', PStr ''None'')])) = Inr False"
    by (simp add: saml_defs scenario_defs)
  have c: "fst (TrustedFilter_backend_passes unreachable_world
            (example_conf\<lparr>default_trust_level := Some ''trusted''\<rparr>) ''host1@lvm'' [] empty_cache)
       = Inr False"
    by (simp add: TrustedFilter_backend_passes_def is_trusted_def example_hostname lookup_defs
          scenario_defs)
  from a b c show ?thesis by (simp add: scenario_defs)
qed

text \<open>
  C8, as the code has it.  A selection string that cannot be parsed into a valid selection
  mapping is treated in one of two ways.  When \<^verbatim>\<open>literal_eval\<close> rejects it, or reads
  something that is not a dictionary, or reads a dictionary that gives some key
  \<^verbatim>\<open>None\<close>, a boolean or a number, the tag evaluator returns false; and in a request
  with a \<^verbatim>\<open>trust\<close> key whose \<^verbatim>\<open>asset_tags\<close> is such a string other than the
  sentinel \<^verbatim>\<open>None\<close>, the filter never accepts: it rejects whenever the attestation query
  returns, and otherwise passes on the exception of the query.  A dictionary with strings
  or dictionaries as values is not treated as malformed: on every dictionary the evaluator
  returns true exactly when, for every key, the host has the key and \<^verbatim>\<open>in\<close> finds the
  host's value in the value of the selection (a substring test in a string, a key test in
  a dictionary).
\<close>

theorem backend_passes_malformed_selection:
  assumes "dict_has (metadata fp) ''trust''"
    and "map_of (metadata fp) ''asset_tags'' = Some (PStr s)"
    and "s \<noteq> ''None''"
  shows "(unusable_selection L s \<longrightarrow>
            \<not> verify_asset_tag L host_tags (PStr s)
          \<and> snd (TrustAssertionFilter_backend_passes L C net host fp) \<noteq> Inr True
          \<and> (case saml_do_attestation C net (hostname_of host) of
               Inl e \<Rightarrow> snd (TrustAssertionFilter_backend_passes L C net host fp) = Inl e
             | Inr host_data \<Rightarrow>
                 snd (TrustAssertionFilter_backend_passes L C net host fp) = Inr False))
       \<and> (\<forall>sel_tags. ast_literal_eval L (lower s) = Some (PDict sel_tags) \<longrightarrow>
            verify_asset_tag L host_tags (PStr s) =
              list_all (\<lambda>tag. tag_mismatch host_tags sel_tags tag = Inr False)
                (map fst sel_tags))"
proof -
  from assms(1) have ne: "metadata fp \<noteq> []" by (auto simp: dict_has_def)
  have "\<not> verify_asset_tag L host_tags (PStr s)
          \<and> snd (TrustAssertionFilter_backend_passes L C net host fp) \<noteq> Inr True
          \<and> (case saml_do_attestation C net (hostname_of host) of
               Inl e \<Rightarrow> snd (TrustAssertionFilter_backend_passes L C net host fp) = Inl e
             | Inr host_data \<Rightarrow>
                 snd (TrustAssertionFilter_backend_passes L C net host fp) = Inr False)"
    if u: "unusable_selection L s"
    using assms ne verify_asset_tag_unusable[OF u]
    by (auto simp: TrustAssertionFilter_backend_passes_def Let_def split: sum.splits prod.splits)
  then show ?thesis
    using verify_asset_tag_dict by blast
qed

theorem backend_passes_malformed_selection_witness:
  "dict_has [(''trust'', PStr ''trusted''), (''asset_tags'', PStr ''{{{'')] ''trust''
   \<and> unusable_selection example_libs ''{{{''
   \<and> saml_do_attestation example_conf authority_up (hostname_of ''host1@lvm'') = Inr (Some ''<saml>'')
   \<and> fst (verify_and_parse_saml example_libs (Some ''<saml>''))
   \<and> snd (TrustAssertionFilter_backend_passes example_libs example_conf authority_up ''host1@lvm''
          (blank_request [(''trust'', PStr ''trusted''), (''asset_tags'', PStr ''{{{'')])) = Inr False
   \<and> ast_literal_eval example_libs (lower ''{'env': 'production'}'')
        = Some (PDict [(PStr ''env'', PStr ''production'')])
   \<and> verify_asset_tag example_libs [(''env'', ''prod'')] (PStr ''{'env': 'production'}'')
   \<and> \<not> verify_asset_tag example_libs [(''env'', ''dev'')] (PStr ''{'env': 'production'}'')"
proof -
  let ?fp = "blank_request [(''trust'', PStr ''trusted''), (''asset_tags'', PStr ''{{{'')]"
  let ?fq = "blank_request [(''trust'', PStr ''trusted''),
                            (''asset_tags'', PStr ''{'env': 'production'}'')]"
  have h1: "dict_has (metadata ?fp) ''trust''" by (simp add: blank_request_def dict_has_def)
  have h2: "map_of (metadata ?fp) ''asset_tags'' = Some (PStr ''{{{'')"
    by (simp add: blank_request_def)
  have h3: "''{{{'' \<noteq> ''None''" by simp
  have h4: "unusable_selection example_libs ''{{{''"
    by (simp add: unusable_selection_def example_libs_def lower_def lower_char_def)
  have a: "saml_do_attestation example_conf authority_up (hostname_of ''host1@lvm'')
             = Inr (Some ''<saml>'')"
    by (simp add: saml_do_attestation_def saml_request_def saml_do_request_def scenario_defs
          success_code_def)
  have g1: "dict_has (metadata ?fq) ''trust''" by (simp add: blank_request_def dict_has_def)
  have g2: "map_of (metadata ?fq) ''asset_tags'' = Some (PStr ''{'env': 'production'}'')"
    by (simp add: blank_request_def)
  have g3: "''{'env': 'production'}'' \<noteq> ''None''" by simp
  have g4: "ast_literal_eval example_libs (lower ''{'env': 'production'}'')
              = Some (PDict [(PStr ''env'', PStr ''production'')])"
    by (simp add: example_libs_def lower_def lower_char_def)
  have m1: "tag_mismatch [(''env'', ''prod'')] [(PStr ''env'', PStr ''production'')] (PStr ''env'')
              = Inr False"
    by (simp add: tag_mismatch_def)
  have m2: "tag_mismatch [(''env'', ''dev'')] [(PStr ''env'', PStr ''production'')] (PStr ''env'')
              = Inr True"
    by (simp add: tag_mismatch_def)
  from backend_passes_malformed_selection[OF h1 h2 h3, where L = example_libs
         and host_tags = "[]" and C = example_conf and net = authority_up
         and host = "''host1@lvm''"] h4 a
  have r1: "snd (TrustAssertionFilter_backend_passes example_libs example_conf authority_up
                   ''host1@lvm'' ?fp) = Inr False"
    by simp
  from backend_passes_malformed_selection[OF g1 g2 g3, where L = example_libs
         and host_tags = "[(''env'', ''prod'')]" and C = example_conf and net = authority_up
         and host = "''host1@lvm''"] g4 m1
  have r2: "verify_asset_tag example_libs [(''env'', ''prod'')] (PStr ''{'env': 'production'}'')"
    by simp
  from backend_passes_malformed_selection[OF g1 g2 g3, where L = example_libs
         and host_tags = "[(''env'', ''dev'')]" and C = example_conf and net = authority_up
         and host = "''host1@lvm''"] g4 m2
  have r3: "\<not> verify_asset_tag example_libs [(''env'', ''dev'')] (PStr ''{'env': 'production'}'')"
    by simp
  from h1 h4 a example_report r1 g4 r2 r3 show ?thesis
    by (simp add: blank_request_def)
qed

text \<open>
  C8 as the specification states it fails in three ways, shown on a trusted host whose tag
  \<^verbatim>\<open>env\<close> is \<^verbatim>\<open>prod\<close>.  A string that is no literal at all, in a request without a
  \<^verbatim>\<open>trust\<close> key, is never evaluated and the request is accepted.  The string
  \<^verbatim>\<open>None\<close>, which is no selection mapping either, is taken as "no constraint".  And a
  dictionary whose value is a string or a dictionary, not a set of accepted values, is
  evaluated with \<^verbatim>\<open>in\<close>: \<^verbatim>\<open>prod\<close> is a substring of \<^verbatim>\<open>production\<close> and a key of
  \<^verbatim>\<open>{'prod': 1}\<close>, so the evaluator returns true and the request is accepted.
\<close>

theorem malformed_selection_accepted_counterexample:
  "\<not> spec_valid_selection example_libs ''{{{''
   \<and> snd (TrustAssertionFilter_backend_passes example_libs example_conf authority_up ''host1@lvm''
          (blank_request [(''asset_tags'', PStr ''{{{'')])) = Inr True
   \<and> \<not> spec_valid_selection example_libs ''None''
   \<and> snd (TrustAssertionFilter_backend_passes example_libs example_conf authority_up ''host1@lvm''
          (blank_request [(''trust'', PStr ''trusted''), (''asset_tags'', PStr ''None'')]))
       = Inr True
   \<and> \<not> spec_valid_selection example_libs ''{'env': 'production'}''
   \<and> verify_asset_tag example_libs [(''env'', ''prod'')] (PStr ''{'env': 'production'}'')
   \<and> snd (TrustAssertionFilter_backend_passes example_libs example_conf authority_up ''host1@lvm''
          (blank_request [(''trust'', PStr ''trusted''),
                          (''asset_tags'', PStr ''{'env': 'production'}'')]))
       = Inr True
   \<and> \<not> spec_valid_selection example_libs ''{'env': {'prod': 1}}''
   \<and> verify_asset_tag example_libs [(''env'', ''prod'')] (PStr ''{'env': {'prod': 1}}'')
   \<and> snd (TrustAssertionFilter_backend_passes example_libs example_conf authority_up ''host1@lvm''
          (blank_request [(''trust'', PStr ''trusted''),
                          (''asset_tags'', PStr ''{'env': {'prod': 1}}'')]))
       = Inr True"
proof -
  have v: "\<not> spec_valid_selection example_libs ''{{{''"
          "\<not> spec_valid_selection example_libs ''None''"
          "\<not> spec_valid_selection example_libs ''{'env': 'production'}''"
          "\<not> spec_valid_selection example_libs ''{'env': {'prod': 1}}''"
    by (simp_all add: spec_valid_selection_def well_formed_selection_def example_libs_def
          lower_def lower_char_def)
  have e: "verify_asset_tag example_libs [(''env'', ''prod'')] (PStr ''{'env': 'production'}'')"
          "verify_asset_tag example_libs [(''env'', ''prod'')] (PStr ''{'env': {'prod': 1}}'')"
    by (simp_all add: verify_asset_tag_def tag_mismatch_def example_libs_def lower_def
          lower_char_def)
  have b1: "snd (TrustAssertionFilter_backend_passes example_libs example_conf authority_up
              ''host1@lvm'' (blank_request [(''asset_tags'', PStr ''{{{'')])) = Inr True"
    by (simp add: saml_defs scenario_defs)
  have b2: "snd (TrustAssertionFilter_backend_passes example_libs example_conf authority_up
              ''host1@lvm'' (blank_request [(''trust'', PStr ''trusted''),
                                            (''asset_tags'', PStr ''None'')])) = Inr True"
    by (simp add: saml_defs scenario_defs lower_def lower_char_def)
  have b3: "snd (TrustAssertionFilter_backend_passes example_libs example_conf authority_up
              ''host1@lvm'' (blank_request [(''trust'', PStr ''trusted''),
                 (''asset_tags'', PStr ''{'env': 'production'}'')])) = Inr True"
    by (simp add: saml_defs scenario_defs lower_def lower_char_def verify_asset_tag_def
          tag_mismatch_def)
  have b4: "snd (TrustAssertionFilter_backend_passes example_libs example_conf authority_up
              ''host1@lvm'' (blank_request [(''trust'', PStr ''trusted''),
                 (''asset_tags'', PStr ''{'env': {'prod': 1}}'')])) = Inr True"
    by (simp add: saml_defs scenario_defs lower_def lower_char_def verify_asset_tag_def
          tag_mismatch_def)
  from v e b1 b2 b3 b4 show ?thesis by simp
qed

text \<open>
  C10.  The metadata mapping after \<^verbatim>\<open>backend_passes\<close>: when the mapping was empty, the
  volume is blank and \<^verbatim>\<open>create_blank_on_trusted\<close> is set, it holds exactly the keys
  \<^verbatim>\<open>trust\<close> and \<^verbatim>\<open>asset_tags\<close> that the filter wrote; on every other input it is the
  mapping the caller passed.  This holds whether the evaluation returns or raises.
\<close>

theorem backend_passes_metadata:
  "fst (TrustAssertionFilter_backend_passes L C net host fp) =
     (if metadata fp = [] \<and> image_id (request_spec fp) = None
         \<and> snapshot_id (request_spec fp) = None \<and> create_blank_on_trusted C
      then [(''trust'', PStr ''trusted''), (''asset_tags'', PStr (default_asset_tags C))]
      else metadata fp)"
  by (simp add: TrustAssertionFilter_backend_passes_def Let_def)

theorem backend_passes_metadata_witness:
  "fst (TrustAssertionFilter_backend_passes example_libs example_conf authority_down ''host1@lvm''
          (blank_request [])) = [(''trust'', PStr ''trusted''), (''asset_tags'', PStr ''None'')]
   \<and> fst (TrustAssertionFilter_backend_passes example_libs example_conf authority_down ''host1@lvm''
          (blank_request [(''foo'', PStr ''bar'')])) = [(''foo'', PStr ''bar'')]"
  using backend_passes_metadata[of example_libs example_conf authority_down "''host1@lvm''"
          "blank_request []"]
        backend_passes_metadata[of example_libs example_conf authority_down "''host1@lvm''"
          "blank_request [(''foo'', PStr ''bar'')]"]
  by (simp add: scenario_defs)

section \<open>Properties of the attestation cache\<close>

subsection \<open>What one cache operation leaves alone\<close>

lemma map_of_reset:
  "map_of (map (\<lambda>kv. (fst kv, init_entry)) d) h =
     (if h \<in> set (map fst d) then Some init_entry else None)"
  by (induction d) auto

lemma store_entry_requests:
  "store_entry h e st = (r, st') \<Longrightarrow> requests st' = requests st"
  by (auto simp: store_entry_def split: if_splits)

lemma store_entry_other:
  "store_entry h e st = (r, st') \<Longrightarrow> h' \<noteq> h \<Longrightarrow>
   map_of (storage_nodes st') h' = map_of (storage_nodes st) h'"
  by (auto simp: store_entry_def map_of_dict_set split: if_splits)

lemma update_cache_entry_requests:
  "update_cache_entry W x st = (r, st') \<Longrightarrow> requests st' = requests st"
  by (auto simp: update_cache_entry_def split: sum.splits if_splits dest!: store_entry_requests)

lemma update_cache_entry_other:
  "update_cache_entry W x st = (r, st') \<Longrightarrow> subscript x ''host_name'' \<noteq> Inr h \<Longrightarrow>
   map_of (storage_nodes st') h = map_of (storage_nodes st) h"
  by (auto simp: update_cache_entry_def split: sum.splits if_splits
           dest!: store_entry_other[where h'=h])

lemma update_entries_requests:
  "update_entries W xs st = (r, st') \<Longrightarrow> requests st' = requests st"
proof (induction xs arbitrary: st)
  case Nil
  then show ?case by simp
next
  case (Cons x xs)
  obtain r1 st1 where u: "update_cache_entry W x st = (r1, st1)"
    by (cases "update_cache_entry W x st")
  show ?case
  proof (cases r1)
    case (Inl e)
    with Cons.prems u show ?thesis by (simp add: update_cache_entry_requests)
  next
    case (Inr a)
    with Cons.prems u have "update_entries W xs st1 = (r, st')" by simp
    then have "requests st' = requests st1" by (rule Cons.IH)
    with u show ?thesis by (simp add: update_cache_entry_requests)
  qed
qed

lemma update_entries_other:
  "update_entries W xs st = (r, st') \<Longrightarrow> \<forall>x\<in>set xs. subscript x ''host_name'' \<noteq> Inr h \<Longrightarrow>
   map_of (storage_nodes st') h = map_of (storage_nodes st) h"
proof (induction xs arbitrary: st)
  case Nil
  then show ?case by simp
next
  case (Cons x xs)
  obtain r1 st1 where u: "update_cache_entry W x st = (r1, st1)"
    by (cases "update_cache_entry W x st")
  from Cons.prems(2) have x: "subscript x ''host_name'' \<noteq> Inr h" by simp
  have s1: "map_of (storage_nodes st1) h = map_of (storage_nodes st) h"
    by (rule update_cache_entry_other[OF u x])
  show ?case
  proof (cases r1)
    case (Inl e)
    with Cons.prems u s1 show ?thesis by simp
  next
    case (Inr a)
    with Cons.prems u have "update_entries W xs st1 = (r, st')" by simp
    moreover from Cons.prems(2) have "\<forall>x\<in>set xs. subscript x ''host_name'' \<noteq> Inr h" by simp
    ultimately have "map_of (storage_nodes st') h = map_of (storage_nodes st1) h"
      by (rule Cons.IH)
    with s1 show ?thesis by simp
  qed
qed

lemma invalidate_caches_keys:
  "map fst (storage_nodes (invalidate_caches st)) = map fst (storage_nodes st)"
  by (simp add: invalidate_caches_def comp_def)

lemma invalidate_caches_lookup:
  "map_of (storage_nodes (invalidate_caches st)) h =
     (if h \<in> set (map fst (storage_nodes st)) then Some init_entry else None)"
  by (simp add: invalidate_caches_def map_of_reset)

lemma invalidate_caches_idem:
  "invalidate_caches (invalidate_caches st) = invalidate_caches st"
  by (simp add: invalidate_caches_def comp_def)

lemma invalidate_caches_requests:
  "requests (invalidate_caches st) = requests st"
  by (simp add: invalidate_caches_def)

lemma response_names_iter:
  "py_iter states = Inr xs \<Longrightarrow> h \<notin> set (response_host_names (Inr states)) \<Longrightarrow>
   \<forall>x\<in>set xs. subscript x ''host_name'' \<noteq> Inr h"
  by (auto simp: response_host_names_def split: sum.splits)

subsection \<open>The refresh\<close>

text \<open>
  The state in which \<^verbatim>\<open>_update_cache\<close> starts its loop: every entry reset, one more
  query in the history.
\<close>

lemma update_cache_effect:
  assumes "update_cache W st = (r, st')"
  shows "update_cache W (invalidate_caches st) = (r, st')"
    and "requests st' = requests st @ [map fst (storage_nodes st)]"
    and "attestation_result W (length (requests st)) (map fst (storage_nodes st)) = Inr PNone
         \<Longrightarrow> r = Inr () \<and> storage_nodes st' = map (\<lambda>kv. (fst kv, init_entry)) (storage_nodes st)"
    and "h \<in> set (map fst (storage_nodes st)) \<Longrightarrow>
         h \<notin> set (response_host_names
                    (attestation_result W (length (requests st)) (map fst (storage_nodes st))))
         \<Longrightarrow> map_of (storage_nodes st') h = Some init_entry"
proof -
  let ?hosts = "map fst (storage_nodes st)"
  let ?res = "attestation_result W (length (requests st)) ?hosts"
  let ?st2 = "(invalidate_caches st)\<lparr>requests := requests st @ [?hosts]\<rparr>"
  have da: "do_attestation W (map fst (storage_nodes (invalidate_caches st))) (invalidate_caches st)
              = (?res, ?st2)"
    by (simp add: do_attestation_def invalidate_caches_keys invalidate_caches_requests)
  have st2_lookup:
    "map_of (storage_nodes ?st2) k = (if k \<in> set ?hosts then Some init_entry else None)" for k
    using invalidate_caches_lookup[of st k] by simp
  show "update_cache W (invalidate_caches st) = (r, st')"
    using assms by (simp add: update_cache_def invalidate_caches_idem)
  have loop: "st' = ?st2 \<or> (\<exists>states xs. ?res = Inr states \<and> py_iter states = Inr xs
                               \<and> update_entries W xs ?st2 = (r, st'))"
  proof (cases ?res)
    case (Inl e)
    with assms da show ?thesis by (auto simp: update_cache_def Let_def)
  next
    case (Inr states)
    show ?thesis
    proof (cases "states = PNone")
      case True
      with Inr assms da show ?thesis by (auto simp: update_cache_def Let_def)
    next
      case False
      show ?thesis
      proof (cases "py_iter states")
        case (Inl e)
        with False Inr assms da show ?thesis by (auto simp: update_cache_def Let_def)
      next
        case (Inr xs)
        with False \<open>?res = Inr states\<close> assms da have "update_entries W xs ?st2 = (r, st')"
          by (simp add: update_cache_def Let_def)
        with Inr \<open>?res = Inr states\<close> show ?thesis by blast
      qed
    qed
  qed
  from loop show "requests st' = requests st @ [?hosts]"
  proof
    assume "st' = ?st2"
    then show ?thesis by simp
  next
    assume "\<exists>states xs. ?res = Inr states \<and> py_iter states = Inr xs
              \<and> update_entries W xs ?st2 = (r, st')"
    then obtain xs where "update_entries W xs ?st2 = (r, st')" by blast
    from update_entries_requests[OF this] show ?thesis by simp
  qed
  show "r = Inr () \<and> storage_nodes st' = map (\<lambda>kv. (fst kv, init_entry)) (storage_nodes st)"
    if "?res = Inr PNone"
    using that assms da by (auto simp: update_cache_def Let_def invalidate_caches_def)
  show "map_of (storage_nodes st') h = Some init_entry"
    if h: "h \<in> set ?hosts" and nh: "h \<notin> set (response_host_names ?res)"
    using loop
  proof
    assume "st' = ?st2"
    with st2_lookup[of h] h show ?thesis by simp
  next
    assume "\<exists>states xs. ?res = Inr states \<and> py_iter states = Inr xs
              \<and> update_entries W xs ?st2 = (r, st')"
    then obtain states xs where res: "?res = Inr states" and it: "py_iter states = Inr xs"
      and ue: "update_entries W xs ?st2 = (r, st')" by blast
    from nh res have "h \<notin> set (response_host_names (Inr states))" by simp
    from response_names_iter[OF it this]
    have "map_of (storage_nodes st') h = map_of (storage_nodes ?st2) h"
      by (rule update_entries_other[OF ue])
    with st2_lookup[of h] h show ?thesis by simp
  qed
qed



text \<open>
  The timestamp of a per-host result that has the three fields, a host name that can be a
  key and a textual \<^verbatim>\<open>vtime\<close>: the ISO-8601 reading is stored with the reported level when it
  exists; otherwise the reading in the \<^verbatim>\<open>%c\<close> format is, when that exists; and when
  neither does, the level \<^verbatim>\<open>unknown\<close> is stored with the current time, for which the
  clock is read once.
\<close>

lemma update_cache_entry_text_vtime:
  assumes "subscript state ''host_name'' = Inr host" and "hashable host"
    and "subscript state ''trust_lvl'' = Inr lvl"
    and "subscript state ''vtime'' = Inr (PStr s)"
  shows "update_cache_entry W state st =
     (case parse_iso8601 W s of
        Some t \<Rightarrow>
          (Inr (), st\<lparr>storage_nodes :=
                        dict_set host \<lparr>trust_lvl = lvl, vtime = t\<rparr> (storage_nodes st)\<rparr>)
      | None \<Rightarrow>
          (case strptime_c W s of
             Some t \<Rightarrow>
               (Inr (), st\<lparr>storage_nodes :=
                             dict_set host \<lparr>trust_lvl = lvl, vtime = t\<rparr> (storage_nodes st)\<rparr>)
           | None \<Rightarrow>
               (Inr (), st\<lparr>clock_reads := Suc (clock_reads st),
                           storage_nodes := dict_set host
                             \<lparr>trust_lvl = PStr ''unknown'', vtime = utcnow W (clock_reads st)\<rparr>
                             (storage_nodes st)\<rparr>)))"
  using assms
  by (simp add: update_cache_entry_def parse_isotime_def parse_strtime_def store_entry_def
           split: option.splits)

lemma update_cache_entry_text_vtime_example:
  "subscript (PDict [(PStr ''host_name'', PStr ''host1''), (PStr ''trust_lvl'', PStr ''trusted''),
                     (PStr ''vtime'', PStr ''yesterday'')]) ''vtime'' = Inr (PStr ''yesterday'')
   \<and> hashable (PStr ''host1'')
   \<and> update_cache_entry unreachable_world
        (PDict [(PStr ''host_name'', PStr ''host1''), (PStr ''trust_lvl'', PStr ''trusted''),
                (PStr ''vtime'', PStr ''yesterday'')]) empty_cache
      = (Inr (),
         \<lparr>storage_nodes = [(PStr ''host1'', \<lparr>trust_lvl = PStr ''unknown'', vtime = 2000000000\<rparr>)],
          clock_reads = 1, requests = []\<rparr>)"
proof -
  let ?state = "PDict [(PStr ''host_name'', PStr ''host1''), (PStr ''trust_lvl'', PStr ''trusted''),
                       (PStr ''vtime'', PStr ''yesterday'')]"
  have h1: "subscript ?state ''host_name'' = Inr (PStr ''host1'')" by (simp add: subscript_def)
  have h2: "hashable (PStr ''host1'')" by simp
  have h3: "subscript ?state ''trust_lvl'' = Inr (PStr ''trusted'')" by (simp add: subscript_def)
  have h4: "subscript ?state ''vtime'' = Inr (PStr ''yesterday'')" by (simp add: subscript_def)
  from update_cache_entry_text_vtime[OF h1 h2 h3 h4, of unreachable_world empty_cache] h2 h4
  show ?thesis by (simp add: unreachable_world_def empty_cache_def)
qed

text \<open>
  C6 does not hold of the code when the timestamp is not text.  The comment in
  \<^verbatim>\<open>_update_cache_entry\<close> says "Mark the system as un-trusted if get invalid vtime", and
  for an unreadable text the code does so.  For the JSON values \<^verbatim>\<open>null\<close> and \<^verbatim>\<open>5\<close>
  both parsers fail as well, but the second fails with \<^verbatim>\<open>TypeError\<close>, which
  \<^verbatim>\<open>except ValueError\<close> does not catch: no entry is stored, and the exception leaves the
  refresh, the lookup and the filter.
\<close>

theorem non_text_vtime_raises:
  "parse_isotime unreachable_world PNone = Inl ValueError
   \<and> parse_strtime unreachable_world PNone = Inl TypeError
   \<and> update_cache_entry unreachable_world
        (PDict [(PStr ''host_name'', PStr ''host1''), (PStr ''trust_lvl'', PStr ''trusted''),
                (PStr ''vtime'', PNone)]) empty_cache
      = (Inl TypeError, empty_cache)
   \<and> update_cache_entry unreachable_world
        (PDict [(PStr ''host_name'', PStr ''host1''), (PStr ''trust_lvl'', PStr ''trusted''),
                (PStr ''vtime'', PInt 5)]) empty_cache
      = (Inl TypeError, empty_cache)
   \<and> fst (get_host_attestation null_vtime_world example_conf (PStr ''host1'') empty_cache)
      = Inl TypeError
   \<and> fst (TrustedFilter_backend_passes null_vtime_world example_conf ''host1@lvm''
            [(''trust:trusted_host'', ''trusted'')] empty_cache) = Inl TypeError"
  by (simp add: TrustedFilter_backend_passes_def is_trusted_def example_hostname lookup_defs
        scenario_defs)

subsection \<open>The lookup\<close>

lemma cache_valid_tracked:
  assumes "map_of (storage_nodes st) host = Some e"
  shows "cache_valid W C host st =
           (utcnow W (clock_reads st) - vtime e \<le> attestation_auth_timeout C * 1000000,
            st\<lparr>clock_reads := Suc (clock_reads st)\<rparr>)"
  using assms by (auto simp: cache_valid_def is_older_than_def)

lemma cache_valid_frame:
  assumes "cache_valid W C host st = (valid, st2)"
  shows "storage_nodes st2 = storage_nodes st \<and> requests st2 = requests st"
  using assms by (auto simp: cache_valid_def is_older_than_def split: option.splits)

text \<open>
  C4, as the code has it.  The entry of a tracked host is stale exactly when the time
  since \<open>vtime\<close> is greater than the configured window (\<^verbatim>\<open>is_older_than\<close> compares with
  \<^verbatim>\<open>>\<close>); a lookup of a fresh entry sends no query, and a lookup of a stale entry sends
  exactly one, for all tracked hosts.
\<close>

theorem lookup_refreshes_when_older:
  assumes "map_of (storage_nodes st) host = Some e"
  shows "fst (cache_valid W C host st) =
           (utcnow W (clock_reads st) - vtime e \<le> attestation_auth_timeout C * 1000000)
       \<and> requests (snd (get_host_attestation W C host st)) =
           (if utcnow W (clock_reads st) - vtime e \<le> attestation_auth_timeout C * 1000000
            then requests st
            else requests st @ [map fst (storage_nodes st)])"
proof -
  let ?st2 = "st\<lparr>clock_reads := Suc (clock_reads st)\<rparr>"
  let ?fresh = "utcnow W (clock_reads st) - vtime e \<le> attestation_auth_timeout C * 1000000"
  have cv: "cache_valid W C host st = (?fresh, ?st2)"
    by (rule cache_valid_tracked[OF assms])
  have has: "dict_has (storage_nodes st) host"
    using assms by (simp add: dict_has_def)
  have req: "requests (snd (get_host_attestation W C host st)) =
           (if ?fresh then requests st else requests st @ [map fst (storage_nodes st)])"
  proof (cases ?fresh)
    case True
    with cv has assms show ?thesis
      by (simp add: get_host_attestation_def)
  next
    case False
    obtain r st3 where u: "update_cache W ?st2 = (r, st3)" by (cases "update_cache W ?st2")
    from update_cache_effect(2)[OF u]
    have "requests st3 = requests st @ [map fst (storage_nodes st)]"
      by simp
    with False cv has u show ?thesis
      by (cases r) (auto simp: get_host_attestation_def split: option.splits)
  qed
  from cv req show ?thesis by simp
qed

theorem lookup_refreshes_when_older_witness:
  "map_of (storage_nodes (cache_verified_at 1970000000)) (PStr ''host1'')
      = Some \<lparr>trust_lvl = PStr ''trusted'', vtime = 1970000000\<rparr>
   \<and> utcnow unreachable_world 0 - 1970000000 = 30 * 1000000
   \<and> attestation_auth_timeout example_conf = 60
   \<and> requests (snd (get_host_attestation unreachable_world example_conf (PStr ''host1'')
                       (cache_verified_at 1970000000))) = []
   \<and> map_of (storage_nodes (cache_verified_at 1880000000)) (PStr ''host1'')
      = Some \<lparr>trust_lvl = PStr ''trusted'', vtime = 1880000000\<rparr>
   \<and> utcnow unreachable_world 0 - 1880000000 = 120 * 1000000
   \<and> requests (snd (get_host_attestation unreachable_world example_conf (PStr ''host1'')
                       (cache_verified_at 1880000000))) = [ [PStr ''host1''] ]"
proof -
  have a: "map_of (storage_nodes (cache_verified_at 1970000000)) (PStr ''host1'')
      = Some \<lparr>trust_lvl = PStr ''trusted'', vtime = 1970000000\<rparr>"
    by (simp add: cache_verified_at_def)
  have b: "map_of (storage_nodes (cache_verified_at 1880000000)) (PStr ''host1'')
      = Some \<lparr>trust_lvl = PStr ''trusted'', vtime = 1880000000\<rparr>"
    by (simp add: cache_verified_at_def)
  from lookup_refreshes_when_older[OF a, of unreachable_world example_conf]
       lookup_refreshes_when_older[OF b, of unreachable_world example_conf] a b
  show ?thesis
    by (simp add: scenario_defs)
qed

text \<open>
  C4 as the specification states it fails on the boundary.  With a window of 60 seconds an
  entry verified exactly 60 seconds ago is still valid, and its lookup sends no query.
\<close>

theorem staleness_boundary_counterexample:
  "utcnow unreachable_world (clock_reads (cache_verified_at 1940000000)) - 1940000000
      = attestation_auth_timeout example_conf * 1000000
   \<and> fst (cache_valid unreachable_world example_conf (PStr ''host1'') (cache_verified_at 1940000000))
   \<and> requests (snd (get_host_attestation unreachable_world example_conf (PStr ''host1'')
                       (cache_verified_at 1940000000))) = []"
  by (simp add: lookup_defs scenario_defs)

text \<open>
  C2, as the code has it.  A lookup that sends no query, with or without the lazy creation
  of the entry it asks for, leaves every entry that existed before as it was; so across
  such lookups \<open>vtime\<close> does not decrease.  Nothing of the kind holds across a refresh.
\<close>

theorem lookup_without_refresh_keeps_entries:
  assumes "get_host_attestation W C host st = (r, st')"
    and "requests st' = requests st"
    and "map_of (storage_nodes st) h = Some e"
  shows "map_of (storage_nodes st') h = Some e"
proof -
  let ?st1 = "if \<not> dict_has (storage_nodes st) host then init_cache_entry host st else st"
  have l1: "map_of (storage_nodes ?st1) h = Some e"
    using assms(3) by (auto simp: dict_has_def init_cache_entry_def map_of_dict_set)
  have r1: "requests ?st1 = requests st"
    by (simp add: init_cache_entry_def)
  obtain valid st2 where cv: "cache_valid W C host ?st1 = (valid, st2)"
    by (cases "cache_valid W C host ?st1")
  from cache_valid_frame[OF cv]
  have f2: "storage_nodes st2 = storage_nodes ?st1" "requests st2 = requests ?st1"
    by simp_all
  show ?thesis
  proof (cases valid)
    case True
    with cv assms(1) have "st' = st2"
      by (auto simp: get_host_attestation_def Let_def split: option.splits)
    with f2 l1 show ?thesis by simp
  next
    case False
    obtain r3 st3 where u: "update_cache W st2 = (r3, st3)" by (cases "update_cache W st2")
    from update_cache_effect(2)[OF u] f2 r1
    have grow: "requests st3 = requests st @ [map fst (storage_nodes st2)]" by simp
    from False cv u assms(1) have "st' = st3"
      by (cases r3) (auto simp: get_host_attestation_def Let_def split: option.splits)
    with grow assms(2) show ?thesis by simp
  qed
qed

theorem lookup_without_refresh_keeps_entries_witness:
  "get_host_attestation unreachable_world example_conf (PStr ''host1'') (cache_verified_at 1970000000)
      = (Inr (PStr ''trusted''), (cache_verified_at 1970000000)\<lparr>clock_reads := 1\<rparr>)
   \<and> requests ((cache_verified_at 1970000000)\<lparr>clock_reads := 1\<rparr>)
      = requests (cache_verified_at 1970000000)
   \<and> map_of (storage_nodes (cache_verified_at 1970000000)) (PStr ''host1'')
      = Some \<lparr>trust_lvl = PStr ''trusted'', vtime = 1970000000\<rparr>
   \<and> map_of (storage_nodes ((cache_verified_at 1970000000)\<lparr>clock_reads := 1\<rparr>)) (PStr ''host1'')
      = Some \<lparr>trust_lvl = PStr ''trusted'', vtime = 1970000000\<rparr>"
proof -
  have a: "get_host_attestation unreachable_world example_conf (PStr ''host1'')
             (cache_verified_at 1970000000)
      = (Inr (PStr ''trusted''), (cache_verified_at 1970000000)\<lparr>clock_reads := 1\<rparr>)"
    by (simp add: lookup_defs scenario_defs)
  have b: "requests ((cache_verified_at 1970000000)\<lparr>clock_reads := 1\<rparr>)
             = requests (cache_verified_at 1970000000)"
    by simp
  have c: "map_of (storage_nodes (cache_verified_at 1970000000)) (PStr ''host1'')
      = Some \<lparr>trust_lvl = PStr ''trusted'', vtime = 1970000000\<rparr>"
    by (simp add: cache_verified_at_def)
  from lookup_without_refresh_keeps_entries[OF a b c] a b c show ?thesis by simp
qed

text \<open>
  C2 as the specification states it fails.  An entry verified at second 1000 is looked up
  at second 2000 while the attestation server is unreachable: the refresh resets the entry,
  nothing repopulates it, and its \<open>vtime\<close> is the epoch, earlier than before.
\<close>

theorem vtime_decreases_counterexample:
  "map_of (storage_nodes (cache_verified_at 1000000000)) (PStr ''host1'')
     = Some \<lparr>trust_lvl = PStr ''trusted'', vtime = 1000000000\<rparr>
   \<and> map_of (storage_nodes (snd (get_host_attestation unreachable_world example_conf
                                    (PStr ''host1'') (cache_verified_at 1000000000))))
        (PStr ''host1'')
     = Some \<lparr>trust_lvl = PStr ''unknown'', vtime = 0\<rparr>"
  by (simp add: lookup_defs scenario_defs)

section \<open>Properties of TrustedFilter\<close>

text \<open>
  C9, as the code has it.  When the host has no entry yet, or an entry that no successful
  attestation has filled, and the query of this lookup (if one is sent) yields no data,
  the lookup returns \<^verbatim>\<open>unknown\<close>, and a request that requires a level other than the
  string \<^verbatim>\<open>unknown\<close> is rejected.
\<close>

theorem never_attested_rejected:
  assumes "map_of (storage_nodes st) (PStr (hostname_of host)) = None
           \<or> map_of (storage_nodes st) (PStr (hostname_of host)) = Some init_entry"
    and "\<forall>hosts. attestation_result W (length (requests st)) hosts = Inr PNone"
    and "map_of md ''trust:trusted_host'' = Some trust"
    and "trust \<noteq> ''unknown''"
  shows "fst (get_host_attestation W C (PStr (hostname_of host)) st) = Inr (PStr ''unknown'')
       \<and> fst (TrustedFilter_backend_passes W C host md st) = Inr False"
proof -
  let ?h = "PStr (hostname_of host)"
  let ?st1 = "if \<not> dict_has (storage_nodes st) ?h then init_cache_entry ?h st else st"
  have l1: "map_of (storage_nodes ?st1) ?h = Some init_entry"
    using assms(1) by (auto simp: dict_has_def init_cache_entry_def map_of_dict_set)
  have r1: "requests ?st1 = requests st"
    by (simp add: init_cache_entry_def)
  obtain valid st2 where cv: "cache_valid W C ?h ?st1 = (valid, st2)"
    by (cases "cache_valid W C ?h ?st1")
  from cache_valid_frame[OF cv]
  have f2: "storage_nodes st2 = storage_nodes ?st1" "requests st2 = requests ?st1"
    by simp_all
  have lookup: "get_host_attestation W C ?h st
                  = (Inr (PStr ''unknown''), snd (get_host_attestation W C ?h st))"
  proof (cases valid)
    case True
    with cv f2 l1 show ?thesis
      by (simp add: get_host_attestation_def Let_def init_entry_def)
  next
    case False
    obtain r3 st3 where u: "update_cache W st2 = (r3, st3)" by (cases "update_cache W st2")
    from assms(2) f2 r1
    have "attestation_result W (length (requests st2)) (map fst (storage_nodes st2)) = Inr PNone"
      by simp
    from update_cache_effect(3)[OF u this]
    have r3: "r3 = Inr ()"
      and s3: "storage_nodes st3 = map (\<lambda>kv. (fst kv, init_entry)) (storage_nodes st2)"
      by simp_all
    from l1 f2 have "?h \<in> set (map fst (storage_nodes st2))"
      by (metis domI dom_map_of_conv_image_fst set_map)
    with s3 have "map_of (storage_nodes st3) ?h = Some init_entry"
      by (simp only: map_of_reset if_True)
    with False cv u r3 show ?thesis
      by (simp add: get_host_attestation_def Let_def init_entry_def)
  qed
  then have "fst (get_host_attestation W C ?h st) = Inr (PStr ''unknown'')"
    by (metis fst_conv)
  moreover from lookup assms(3,4)
  have "fst (TrustedFilter_backend_passes W C host md st) = Inr False"
    by (cases "get_host_attestation W C ?h st")
       (auto simp: TrustedFilter_backend_passes_def is_trusted_def Let_def)
  ultimately show ?thesis by simp
qed

theorem never_attested_rejected_witness:
  "map_of (storage_nodes empty_cache) (PStr (hostname_of ''host1@lvm'')) = None
   \<and> attestation_result unreachable_world (length (requests empty_cache)) [PStr ''host1'']
       = Inr PNone
   \<and> fst (get_host_attestation unreachable_world example_conf (PStr (hostname_of ''host1@lvm''))
            empty_cache) = Inr (PStr ''unknown'')
   \<and> fst (TrustedFilter_backend_passes unreachable_world example_conf ''host1@lvm''
            [(''trust:trusted_host'', ''trusted'')] empty_cache) = Inr False"
proof -
  have h1: "map_of (storage_nodes empty_cache) (PStr (hostname_of ''host1@lvm'')) = None
            \<or> map_of (storage_nodes empty_cache) (PStr (hostname_of ''host1@lvm''))
                = Some init_entry"
    by (simp add: empty_cache_def)
  have h2: "\<forall>hosts. attestation_result unreachable_world (length (requests empty_cache)) hosts
              = Inr PNone"
    by (simp add: attestation_result_def oat_do_request_def unreachable_world_def)
  have h3: "map_of [(''trust:trusted_host'', ''trusted'')] ''trust:trusted_host'' = Some ''trusted''"
    by simp
  have h4: "''trusted'' \<noteq> ''unknown''" by simp
  have h5: "map_of (storage_nodes empty_cache) (PStr (hostname_of ''host1@lvm'')) = None"
    by (simp add: empty_cache_def)
  from never_attested_rejected[OF h1 h2 h3 h4, of example_conf] h2 h5 show ?thesis by simp
qed

text \<open>
  C9 as the specification states it fails for one requirement: a request that requires the
  level \<^verbatim>\<open>unknown\<close> is accepted on a host that was never attested.
\<close>

theorem required_unknown_accepted_counterexample:
  "fst (TrustedFilter_backend_passes unreachable_world example_conf ''host1@lvm''
          [(''trust:trusted_host'', ''unknown'')] empty_cache) = Inr True"
  by (simp add: TrustedFilter_backend_passes_def is_trusted_def example_hostname lookup_defs
        scenario_defs)

text \<open>
  C3 does not hold of the code.  The attestation server answers 200 with a body that is
  not JSON; \<^verbatim>\<open>_do_request\<close> catches the decoding error and returns the text, on which
  \<^verbatim>\<open>do_attestation\<close> calls \<^verbatim>\<open>get\<close>: the \<^verbatim>\<open>AttributeError\<close> leaves the lookup and the
  filter.
\<close>

theorem non_json_body_raises:
  "fst (get_host_attestation text_body_world example_conf (PStr ''host1'') empty_cache)
     = Inl AttributeError
   \<and> fst (TrustedFilter_backend_passes text_body_world example_conf ''host1@lvm''
            [(''trust:trusted_host'', ''trusted'')] empty_cache) = Inl AttributeError"
  by (simp add: TrustedFilter_backend_passes_def is_trusted_def example_hostname lookup_defs
        scenario_defs)

end
